theory Spec2Isabelle
  imports Complex_Main
begin

section \<open>Host arithmetic and errors\<close>

text \<open>
  The model project computes with the host's floating-point numbers. Their operations
  are not part of the repository, so the embedding takes them as a parameter: a value
  type \<open>'a\<close>, the conversion of an integer literal, and the five binary operations
  \<open>+\<close>, \<open>-\<close>, \<open>*\<close>, \<open>/\<close> and \<open>**\<close>, each of which either returns a value or raises a host
  error of type \<open>'e\<close>. No algebraic law is assumed of them, so what is proved of
  \<open>capital\<close> for every host arithmetic holds for rounded arithmetic as well as for exact
  arithmetic. Equality of two values is identity of the stored value.
\<close>

record ('a, 'e) arith =
  fnum :: "int \<Rightarrow> 'a"
  fadd :: "'a \<Rightarrow> 'a \<Rightarrow> 'e + 'a"
  fsub :: "'a \<Rightarrow> 'a \<Rightarrow> 'e + 'a"
  fmul :: "'a \<Rightarrow> 'a \<Rightarrow> 'e + 'a"
  fdiv :: "'a \<Rightarrow> 'a \<Rightarrow> 'e + 'a"
  fpow :: "'a \<Rightarrow> 'a \<Rightarrow> 'e + 'a"

text \<open>
  What a call can raise: \<open>ValueError\<close> (a negative array length), \<open>IndexError\<close> (a
  subscript out of range), \<open>NameError\<close> and \<open>TypeError\<close> (a compiled expression applied
  to the wrong arguments), or an error of a host arithmetic operation.
\<close>

datatype 'e error = ValueError | IndexError | NameError | TypeError | HostError 'e

definition bind_res :: "'x + 'a \<Rightarrow> ('a \<Rightarrow> 'x + 'b) \<Rightarrow> 'x + 'b" where
  "bind_res m f = (case m of Inl e \<Rightarrow> Inl e | Inr v \<Rightarrow> f v)"

definition host :: "'e + 'a \<Rightarrow> 'e error + 'a" where
  "host m = (case m of Inl e \<Rightarrow> Inl (HostError e) | Inr v \<Rightarrow> Inr v)"

section \<open>Arrays\<close>

text \<open>
  \<open>np.zeros(T)\<close> allocates a fresh array of \<open>T\<close> zeros and raises \<open>ValueError\<close> for a
  negative \<open>T\<close>. A subscript \<open>i\<close> of an array of length \<open>len\<close> is in range when
  \<open>-len \<le> i < len\<close>, a negative one counting from the end; any other raises
  \<open>IndexError\<close>.
\<close>

definition np_zeros :: "('a, 'e) arith \<Rightarrow> int \<Rightarrow> 'e error + 'a list" where
  "np_zeros A T = (if T < 0 then Inl ValueError else Inr (replicate (nat T) (fnum A 0)))"

definition norm_index :: "nat \<Rightarrow> int \<Rightarrow> 'e error + nat" where
  "norm_index len i =
     (if - int len \<le> i \<and> i < int len
      then Inr (nat (if i < 0 then i + int len else i))
      else Inl IndexError)"

definition getitem :: "'a list \<Rightarrow> int \<Rightarrow> 'e error + 'a" where
  "getitem xs i = bind_res (norm_index (length xs) i) (\<lambda>j. Inr (xs ! j))"

definition setitem :: "'a list \<Rightarrow> int \<Rightarrow> 'a \<Rightarrow> 'e error + 'a list" where
  "setitem xs i v = bind_res (norm_index (length xs) i) (\<lambda>j. Inr (xs[j := v]))"

section \<open>The simulation loop\<close>

text \<open>
  The right-hand side of the two assignments in the loop of \<open>capital\<close>,
  \<^verbatim>\<open>(s*k[t-1]**alpha*h[t-1]**phi + (1-delta)*x[t-1]) / (1+n+g)\<close>,
  where \<open>s, x\<close> is \<open>s_K, k\<close> in the first assignment and \<open>s_H, h\<close> in the second. The
  operands are evaluated from left to right, and the first error raised ends the
  evaluation.
\<close>

definition transition ::
  "('a, 'e) arith \<Rightarrow> 'a \<Rightarrow> 'a \<Rightarrow> 'a \<Rightarrow> 'a \<Rightarrow> 'a \<Rightarrow> 'a \<Rightarrow>
     'a list \<Rightarrow> 'a list \<Rightarrow> 'a list \<Rightarrow> int \<Rightarrow> 'e error + 'a" where
  "transition A s n delta alpha phi g k h x t =
     bind_res (getitem k (t - 1)) (\<lambda>k1.
     bind_res (host (fpow A k1 alpha)) (\<lambda>p1.
     bind_res (host (fmul A s p1)) (\<lambda>m1.
     bind_res (getitem h (t - 1)) (\<lambda>h1.
     bind_res (host (fpow A h1 phi)) (\<lambda>p2.
     bind_res (host (fmul A m1 p2)) (\<lambda>m2.
     bind_res (host (fsub A (fnum A 1) delta)) (\<lambda>d1.
     bind_res (getitem x (t - 1)) (\<lambda>x1.
     bind_res (host (fmul A d1 x1)) (\<lambda>m3.
     bind_res (host (fadd A m2 m3)) (\<lambda>num.
     bind_res (host (fadd A (fnum A 1) n)) (\<lambda>a1.
     bind_res (host (fadd A a1 g)) (\<lambda>den.
     host (fdiv A num den)))))))))))))"

text \<open>
  The body of \<^verbatim>\<open>for t in range(1, T)\<close>, over the list of the values \<open>t\<close> takes. The
  second assignment reads \<open>k\<close> after the first has stored into it.
\<close>

fun capital_loop ::
  "('a, 'e) arith \<Rightarrow> 'a \<Rightarrow> 'a \<Rightarrow> 'a \<Rightarrow> 'a \<Rightarrow> 'a \<Rightarrow> 'a \<Rightarrow> 'a \<Rightarrow>
     int list \<Rightarrow> 'a list \<Rightarrow> 'a list \<Rightarrow> 'e error + ('a list \<times> 'a list)" where
  "capital_loop A s_K s_H n delta alpha phi g [] k h = Inr (k, h)"
| "capital_loop A s_K s_H n delta alpha phi g (t # ts) k h =
     bind_res (transition A s_K n delta alpha phi g k h k t) (\<lambda>v.
     bind_res (setitem k t v) (\<lambda>k'.
     bind_res (transition A s_H n delta alpha phi g k' h h t) (\<lambda>w.
     bind_res (setitem h t w) (\<lambda>h'.
     capital_loop A s_K s_H n delta alpha phi g ts k' h'))))"

definition capital ::
  "('a, 'e) arith \<Rightarrow> 'a \<Rightarrow> 'a \<Rightarrow> 'a \<Rightarrow> 'a \<Rightarrow> 'a \<Rightarrow> 'a \<Rightarrow> 'a \<Rightarrow> 'a \<Rightarrow> int \<Rightarrow> 'a \<Rightarrow>
     'e error + ('a list \<times> 'a list)" where
  "capital A s_K s_H n delta alpha phi k0 h0 T g =
     bind_res (np_zeros A T) (\<lambda>k.
     bind_res (np_zeros A T) (\<lambda>h.
     bind_res (setitem k 0 k0) (\<lambda>k.
     bind_res (setitem h 0 h0) (\<lambda>h.
     capital_loop A s_K s_H n delta alpha phi g [1..T - 1] k h))))"

text \<open>
  The update rule as the specification writes it, on the two previous values:
  \<open>(s\<cdot>kp^alpha\<cdot>hp^phi + (1-delta)\<cdot>xp) / (1+n+g)\<close>.
\<close>

definition accumulation ::
  "('a, 'e) arith \<Rightarrow> 'a \<Rightarrow> 'a \<Rightarrow> 'a \<Rightarrow> 'a \<Rightarrow> 'a \<Rightarrow> 'a \<Rightarrow> 'a \<Rightarrow> 'a \<Rightarrow> 'a \<Rightarrow> 'e + 'a" where
  "accumulation A s n delta alpha phi g kp hp xp =
     bind_res (fpow A kp alpha) (\<lambda>p1.
     bind_res (fmul A s p1) (\<lambda>m1.
     bind_res (fpow A hp phi) (\<lambda>p2.
     bind_res (fmul A m1 p2) (\<lambda>m2.
     bind_res (fsub A (fnum A 1) delta) (\<lambda>d1.
     bind_res (fmul A d1 xp) (\<lambda>m3.
     bind_res (fadd A m2 m3) (\<lambda>num.
     bind_res (fadd A (fnum A 1) n) (\<lambda>a1.
     bind_res (fadd A a1 g) (\<lambda>den.
     fdiv A num den)))))))))"

text \<open>The divisor \<open>1+n+g\<close> of the update rule.\<close>

definition divisor :: "('a, 'e) arith \<Rightarrow> 'a \<Rightarrow> 'a \<Rightarrow> 'e + 'a" where
  "divisor A n g = bind_res (fadd A (fnum A 1) n) (\<lambda>a1. fadd A a1 g)"

text \<open>The dividend \<open>s\<cdot>kp^alpha\<cdot>hp^phi + (1-delta)\<cdot>xp\<close> of the update rule.\<close>

definition numerator ::
  "('a, 'e) arith \<Rightarrow> 'a \<Rightarrow> 'a \<Rightarrow> 'a \<Rightarrow> 'a \<Rightarrow> 'a \<Rightarrow> 'a \<Rightarrow> 'a \<Rightarrow> 'e + 'a" where
  "numerator A s delta alpha phi kp hp xp =
     bind_res (fpow A kp alpha) (\<lambda>p1.
     bind_res (fmul A s p1) (\<lambda>m1.
     bind_res (fpow A hp phi) (\<lambda>p2.
     bind_res (fmul A m1 p2) (\<lambda>m2.
     bind_res (fsub A (fnum A 1) delta) (\<lambda>d1.
     bind_res (fmul A d1 xp) (\<lambda>m3.
     fadd A m2 m3))))))"

text \<open>
  The simulation as the specification describes it: index 0 is the initial condition and
  each subsequent pair is computed from the previous pair by the update rule.
  \<open>trajectory \<dots> p j\<close> is the list of the \<open>j + 1\<close> pairs that start at \<open>p\<close>, or the error
  of the first update that is not defined.
\<close>

definition step ::
  "('a, 'e) arith \<Rightarrow> 'a \<Rightarrow> 'a \<Rightarrow> 'a \<Rightarrow> 'a \<Rightarrow> 'a \<Rightarrow> 'a \<Rightarrow> 'a \<Rightarrow> 'a \<times> 'a \<Rightarrow> 'e + 'a \<times> 'a" where
  "step A s_K s_H n delta alpha phi g p =
     bind_res (accumulation A s_K n delta alpha phi g (fst p) (snd p) (fst p)) (\<lambda>v.
     bind_res (accumulation A s_H n delta alpha phi g (fst p) (snd p) (snd p)) (\<lambda>w.
     Inr (v, w)))"

fun trajectory ::
  "('a, 'e) arith \<Rightarrow> 'a \<Rightarrow> 'a \<Rightarrow> 'a \<Rightarrow> 'a \<Rightarrow> 'a \<Rightarrow> 'a \<Rightarrow> 'a \<Rightarrow> 'a \<times> 'a \<Rightarrow> nat \<Rightarrow>
     'e + ('a \<times> 'a) list" where
  "trajectory A s_K s_H n delta alpha phi g p 0 = Inr [p]"
| "trajectory A s_K s_H n delta alpha phi g p (Suc j) =
     bind_res (step A s_K s_H n delta alpha phi g p) (\<lambda>q.
     bind_res (trajectory A s_K s_H n delta alpha phi g q j) (\<lambda>ps.
     Inr (p # ps)))"

section \<open>Two interpretations of the host arithmetic\<close>

text \<open>
  Exact arithmetic on the real numbers, in which what is undefined raises: a division by
  zero and a power of a base that is not positive. This is the reading of a formula in
  algebra; it is not the arithmetic of the arrays, which does not raise.
\<close>

datatype host_error = DivideByZero | InvalidPower

definition exact_arith :: "(real, host_error) arith" where
  "exact_arith =
     \<lparr> fnum = real_of_int,
       fadd = (\<lambda>x y. Inr (x + y)),
       fsub = (\<lambda>x y. Inr (x - y)),
       fmul = (\<lambda>x y. Inr (x * y)),
       fdiv = (\<lambda>x y. if y = 0 then Inl DivideByZero else Inr (x / y)),
       fpow = (\<lambda>x a. if 0 < x then Inr (x powr a) else Inl InvalidPower) \<rparr>"

text \<open>
  The arithmetic of the array entries (float64 scalars) with its default error handling:
  no operation raises; a division by zero, an overflow or an invalid operation returns
  \<open>inf\<close>, \<open>-inf\<close> or \<open>nan\<close>. The interpretation below has these three values beside the
  real numbers and follows IEEE 754 on them; rounding, overflow of a finite result and
  the sign of zero are left out.
\<close>

datatype xreal = Fin real | PInf | MInf | NaN

fun positive :: "xreal \<Rightarrow> bool" where
  "positive (Fin x) = (0 < x)"
| "positive PInf = True"
| "positive MInf = False"
| "positive NaN = False"

definition inf_of :: "bool \<Rightarrow> xreal" where
  "inf_of pos = (if pos then PInf else MInf)"

fun xneg :: "xreal \<Rightarrow> xreal" where
  "xneg (Fin x) = Fin (- x)"
| "xneg PInf = MInf"
| "xneg MInf = PInf"
| "xneg NaN = NaN"

fun xadd :: "xreal \<Rightarrow> xreal \<Rightarrow> xreal" where
  "xadd NaN b = NaN"
| "xadd a NaN = NaN"
| "xadd (Fin x) (Fin y) = Fin (x + y)"
| "xadd PInf MInf = NaN"
| "xadd MInf PInf = NaN"
| "xadd PInf b = PInf"
| "xadd MInf b = MInf"
| "xadd a PInf = PInf"
| "xadd a MInf = MInf"

definition xsub :: "xreal \<Rightarrow> xreal \<Rightarrow> xreal" where
  "xsub a b = xadd a (xneg b)"

fun xmul :: "xreal \<Rightarrow> xreal \<Rightarrow> xreal" where
  "xmul NaN b = NaN"
| "xmul a NaN = NaN"
| "xmul (Fin x) (Fin y) = Fin (x * y)"
| "xmul a b = (if a = Fin 0 \<or> b = Fin 0 then NaN else inf_of (positive a = positive b))"

fun xdiv :: "xreal \<Rightarrow> xreal \<Rightarrow> xreal" where
  "xdiv NaN b = NaN"
| "xdiv a NaN = NaN"
| "xdiv (Fin x) (Fin y) =
     (if y \<noteq> 0 then Fin (x / y) else if x = 0 then NaN else inf_of (0 < x))"
| "xdiv (Fin x) b = Fin 0"
| "xdiv a (Fin y) = inf_of (positive a = (0 \<le> y))"
| "xdiv a b = NaN"

text \<open>
  The power follows the C library: \<open>x**0 = 1\<close> and \<open>1**y = 1\<close> for every \<open>x\<close> and \<open>y\<close>,
  a negative base has a power for an integral exponent only, and a zero base with a
  negative exponent gives \<open>inf\<close>.
\<close>

definition xpow :: "xreal \<Rightarrow> xreal \<Rightarrow> xreal" where
  "xpow a b =
     (if b = Fin 0 \<or> a = Fin 1 then Fin 1
      else case (a, b) of
        (NaN, _) \<Rightarrow> NaN
      | (_, NaN) \<Rightarrow> NaN
      | (Fin x, Fin y) \<Rightarrow>
          (if 0 < x then Fin (x powr y)
           else if x = 0 then (if 0 < y then Fin 0 else PInf)
           else if y = of_int \<lfloor>y\<rfloor>
             then Fin ((if even \<lfloor>y\<rfloor> then 1 else - 1) * (\<bar>x\<bar> powr y))
             else NaN)
      | (Fin x, PInf) \<Rightarrow> (if \<bar>x\<bar> < 1 then Fin 0 else if \<bar>x\<bar> = 1 then Fin 1 else PInf)
      | (Fin x, MInf) \<Rightarrow> (if \<bar>x\<bar> < 1 then PInf else if \<bar>x\<bar> = 1 then Fin 1 else Fin 0)
      | (PInf, _) \<Rightarrow> (if positive b then PInf else Fin 0)
      | (MInf, Fin y) \<Rightarrow>
          (if 0 < y then (if y = of_int \<lfloor>y\<rfloor> \<and> odd \<lfloor>y\<rfloor> then MInf else PInf) else Fin 0)
      | (MInf, PInf) \<Rightarrow> PInf
      | (MInf, MInf) \<Rightarrow> Fin 0)"

definition extended_arith :: "(xreal, unit) arith" where
  "extended_arith =
     \<lparr> fnum = (\<lambda>i. Fin (real_of_int i)),
       fadd = (\<lambda>x y. Inr (xadd x y)),
       fsub = (\<lambda>x y. Inr (xsub x y)),
       fmul = (\<lambda>x y. Inr (xmul x y)),
       fdiv = (\<lambda>x y. Inr (xdiv x y)),
       fpow = (\<lambda>x a. Inr (xpow x a)) \<rparr>"

section \<open>The symbolic layer\<close>

text \<open>
  The module builds expressions of the symbolic-algebra library with Python's operators.
  An expression is the tree of the operators applied, over symbols and integer literals;
  \<open>Equality\<close> is \<open>sm.Eq\<close>.
\<close>

datatype binop = OpAdd | OpSub | OpMul | OpDiv | OpPow

datatype expr =
    Symbol string
  | Integer int
  | BinOp binop expr expr
  | Equality expr expr

text \<open>
  The names the module binds at import: nine symbols and the list \<open>param\<close> of them.
\<close>

record module =
  mod_k :: expr
  mod_h :: expr
  mod_alpha :: expr
  mod_delta :: expr
  mod_phi :: expr
  mod_s_K :: expr
  mod_s_H :: expr
  mod_g :: expr
  mod_n :: expr
  mod_param :: "expr list"

definition module_init :: module where
  "module_init =
     (let k = Symbol ''k''; h = Symbol ''h''; alpha = Symbol ''alpha'';
          delta = Symbol ''delta''; phi = Symbol ''phi''; s_K = Symbol ''s_K'';
          s_H = Symbol ''s_H''; g = Symbol ''g''; n = Symbol ''n''
      in \<lparr> mod_k = k, mod_h = h, mod_alpha = alpha, mod_delta = delta, mod_phi = phi,
           mod_s_K = s_K, mod_s_H = s_H, mod_g = g, mod_n = n,
           mod_param = [k, h, alpha, delta, phi, s_K, s_H, g, n] \<rparr>)"

text \<open>
  The value of an expression where its symbols are bound to numbers, in the host
  arithmetic: operands from left to right, an unbound symbol is a \<open>NameError\<close>, an
  equation has no number as its value.
\<close>

definition apply_op :: "('a, 'e) arith \<Rightarrow> binop \<Rightarrow> 'a \<Rightarrow> 'a \<Rightarrow> 'e + 'a" where
  "apply_op A op x y =
     (case op of
        OpAdd \<Rightarrow> fadd A x y
      | OpSub \<Rightarrow> fsub A x y
      | OpMul \<Rightarrow> fmul A x y
      | OpDiv \<Rightarrow> fdiv A x y
      | OpPow \<Rightarrow> fpow A x y)"

fun evaluate :: "('a, 'e) arith \<Rightarrow> (string \<times> 'a) list \<Rightarrow> expr \<Rightarrow> 'e error + 'a" where
  "evaluate A env (Symbol x) = (case map_of env x of None \<Rightarrow> Inl NameError | Some v \<Rightarrow> Inr v)"
| "evaluate A env (Integer i) = Inr (fnum A i)"
| "evaluate A env (BinOp op a b) =
     bind_res (evaluate A env a) (\<lambda>x.
     bind_res (evaluate A env b) (\<lambda>y.
     host (apply_op A op x y)))"
| "evaluate A env (Equality a b) = Inl TypeError"

text \<open>
  Binding symbols to numbers by position, as a compiled function binds its parameters to
  its arguments; \<open>None\<close> when the numbers of parameters and arguments differ.
\<close>

fun bind_args :: "expr list \<Rightarrow> 'a list \<Rightarrow> (string \<times> 'a) list option" where
  "bind_args [] [] = Some []"
| "bind_args (Symbol x # args) (v # vals) = map_option (Cons (x, v)) (bind_args args vals)"
| "bind_args _ _ = None"

text \<open>
  The two sides of an equation; \<open>None\<close> is the \<open>AttributeError\<close> of an expression that
  is not an equation.
\<close>

fun lhs :: "expr \<Rightarrow> expr option" where
  "lhs (Equality a b) = Some a"
| "lhs _ = None"

fun rhs :: "expr \<Rightarrow> expr option" where
  "rhs (Equality a b) = Some b"
| "rhs _ = None"




section \<open>The library functions that consume expressions\<close>

text \<open>
  The library keeps an expression in a normal form of its own (sums and products
  reordered, a quotient as a product with a power) and its functions work on that form.
  The normal form is a function of the operators applied, so a library function is a
  function of the tree above, whatever it does with it. Two of them are called by the
  module, \<open>sm.solve\<close> and \<open>sm.lambdify\<close>; neither is part of the repository, and both
  are parameters of the functions below.
\<close>


text \<open>
  \<open>sm.lambdify(args, e)\<close> returns a function of as many numbers as there are symbols in
  \<open>args\<close>. A compiler is exact when the function returns the value that the expression
  has in exact arithmetic with the symbols bound to the numbers, wherever the expression
  as written has one. The floating-point function the library generates returns this
  value up to rounding.
\<close>

definition compiles_exactly ::
  "(expr list \<Rightarrow> expr \<Rightarrow> real list \<Rightarrow> host_error error + real) \<Rightarrow> bool" where
  "compiles_exactly lambdify =
     (\<forall>args e vals env v.
        bind_args args vals = Some env \<and> evaluate exact_arith env e = Inr v \<longrightarrow>
        lambdify args e vals = Inr v)"

text \<open>A compiler that is exact: it evaluates the expression as written.\<close>

definition direct_lambdify ::
  "expr list \<Rightarrow> expr \<Rightarrow> real list \<Rightarrow> host_error error + real" where
  "direct_lambdify args e vals =
     (case bind_args args vals of
        None \<Rightarrow> Inl TypeError
      | Some env \<Rightarrow> evaluate exact_arith env e)"

section \<open>The functions of the module, on the module state\<close>

text \<open>
  The two transition equations that \<open>nullclines\<close> writes down, over the module's
  symbols.
\<close>

definition trans_k :: "module \<Rightarrow> expr" where
  "trans_k M =
     (let k = mod_k M; h = mod_h M; alpha = mod_alpha M; delta = mod_delta M;
          phi = mod_phi M; s_K = mod_s_K M; g = mod_g M; n = mod_n M
      in Equality k
           (BinOp OpDiv
              (BinOp OpAdd
                 (BinOp OpMul (BinOp OpMul s_K (BinOp OpPow k alpha)) (BinOp OpPow h phi))
                 (BinOp OpMul (BinOp OpSub (Integer 1) delta) k))
              (BinOp OpMul (BinOp OpAdd (Integer 1) n) (BinOp OpAdd (Integer 1) g))))"

definition trans_h :: "module \<Rightarrow> expr" where
  "trans_h M =
     (let k = mod_k M; h = mod_h M; alpha = mod_alpha M; delta = mod_delta M;
          phi = mod_phi M; s_H = mod_s_H M; g = mod_g M; n = mod_n M
      in Equality h
           (BinOp OpDiv
              (BinOp OpAdd
                 (BinOp OpMul (BinOp OpMul s_H (BinOp OpPow k alpha)) (BinOp OpPow h phi))
                 (BinOp OpMul (BinOp OpSub (Integer 1) delta) h))
              (BinOp OpMul (BinOp OpAdd (Integer 1) n) (BinOp OpAdd (Integer 1) g))))"

text \<open>
  Each function takes the module state and returns its result with the module state
  after the call. \<open>nullclines\<close> and \<open>aevaluation\<close> read the module's symbols; neither
  uses its argument.
\<close>

definition nullclines ::
  "(expr \<Rightarrow> expr \<Rightarrow> expr list) \<Rightarrow> 'x \<Rightarrow> module \<Rightarrow> (expr list \<times> expr list) option \<times> module" where
  "nullclines solve param M =
     (let h = mod_h M
      in (Option.bind (lhs (trans_k M)) (\<lambda>lk.
          Option.bind (rhs (trans_k M)) (\<lambda>rk.
          Option.bind (lhs (trans_h M)) (\<lambda>lh.
          Option.bind (rhs (trans_h M)) (\<lambda>rh.
            let Delta_k = BinOp OpSub lk rk;
                Delta_h = BinOp OpSub lh rh;
                zero_k = Equality (Integer 0) Delta_k;
                zero_h = Equality (Integer 0) Delta_h;
                nullcline_k = solve zero_k h;
                nullcline_h = solve zero_h h
            in Some (nullcline_k, nullcline_h))))),
          M))"

definition aevaluation ::
  "(expr list \<Rightarrow> expr \<Rightarrow> 'f) \<Rightarrow> 'x \<Rightarrow> module \<Rightarrow> ('f \<times> 'f) \<times> module" where
  "aevaluation lambdify x M =
     (let alpha = mod_alpha M; delta = mod_delta M; phi = mod_phi M;
          s_K = mod_s_K M; s_H = mod_s_H M; g = mod_g M; n = mod_n M;
          kss = BinOp OpPow
            (BinOp OpDiv
               (BinOp OpMul (BinOp OpPow s_K (BinOp OpSub (Integer 1) phi)) (BinOp OpPow s_H phi))
               (BinOp OpAdd (BinOp OpAdd (BinOp OpAdd n g) delta) (BinOp OpMul n g)))
            (BinOp OpDiv (Integer 1) (BinOp OpSub (BinOp OpSub (Integer 1) alpha) phi));
          hss = BinOp OpPow
            (BinOp OpDiv
               (BinOp OpMul (BinOp OpPow s_K alpha) (BinOp OpPow s_H (BinOp OpSub (Integer 1) alpha)))
               (BinOp OpAdd (BinOp OpAdd (BinOp OpAdd n g) delta) (BinOp OpMul n g)))
            (BinOp OpDiv (Integer 1) (BinOp OpSub (BinOp OpSub (Integer 1) alpha) phi));
          kss_func = lambdify [s_K, s_H, g, n, delta, phi, alpha] kss;
          hss_func = lambdify [s_K, s_H, g, n, delta, phi, alpha] hss
      in ((kss_func, hss_func), M))"

text \<open>
  \<open>capital\<close> binds its ten parameters and the local names \<open>k\<close>, \<open>h\<close> and \<open>t\<close>, which
  hide the module's names; it reads and writes none of the module's names.
\<close>

definition capital_call ::
  "('a, 'e) arith \<Rightarrow> 'a \<Rightarrow> 'a \<Rightarrow> 'a \<Rightarrow> 'a \<Rightarrow> 'a \<Rightarrow> 'a \<Rightarrow> 'a \<Rightarrow> 'a \<Rightarrow> int \<Rightarrow> 'a \<Rightarrow> module \<Rightarrow>
     ('e error + ('a list \<times> 'a list)) \<times> module" where
  "capital_call A s_K s_H n delta alpha phi k0 h0 T g M =
     (capital A s_K s_H n delta alpha phi k0 h0 T g, M)"

text \<open>
  The steady-state formulas as written, on seven numbers:
  \<open>((s_K^(1-phi)\<cdot>s_H^phi) / (n+g+delta+n\<cdot>g))^(1/(1-alpha-phi))\<close> and
  \<open>((s_K^alpha\<cdot>s_H^(1-alpha)) / (n+g+delta+n\<cdot>g))^(1/(1-alpha-phi))\<close>.
\<close>

definition steady_state ::
  "('a, 'e) arith \<Rightarrow> 'a \<Rightarrow> 'a \<Rightarrow> 'a \<Rightarrow> 'a \<Rightarrow> 'a \<Rightarrow> 'a \<Rightarrow> 'a \<Rightarrow> 'a \<Rightarrow> 'a \<Rightarrow> 'e + 'a" where
  "steady_state A p1 p2 g n delta phi alpha s_K s_H =
     bind_res (fmul A p1 p2) (\<lambda>num.
     bind_res (fadd A n g) (\<lambda>a1.
     bind_res (fadd A a1 delta) (\<lambda>a2.
     bind_res (fmul A n g) (\<lambda>ng.
     bind_res (fadd A a2 ng) (\<lambda>den.
     bind_res (fdiv A num den) (\<lambda>q.
     bind_res (fsub A (fnum A 1) alpha) (\<lambda>b1.
     bind_res (fsub A b1 phi) (\<lambda>b2.
     bind_res (fdiv A (fnum A 1) b2) (\<lambda>ex.
     fpow A q ex)))))))))"

definition kss_formula ::
  "('a, 'e) arith \<Rightarrow> 'a \<Rightarrow> 'a \<Rightarrow> 'a \<Rightarrow> 'a \<Rightarrow> 'a \<Rightarrow> 'a \<Rightarrow> 'a \<Rightarrow> 'e + 'a" where
  "kss_formula A s_K s_H g n delta phi alpha =
     bind_res (fsub A (fnum A 1) phi) (\<lambda>e1.
     bind_res (fpow A s_K e1) (\<lambda>p1.
     bind_res (fpow A s_H phi) (\<lambda>p2.
     steady_state A p1 p2 g n delta phi alpha s_K s_H)))"

definition hss_formula ::
  "('a, 'e) arith \<Rightarrow> 'a \<Rightarrow> 'a \<Rightarrow> 'a \<Rightarrow> 'a \<Rightarrow> 'a \<Rightarrow> 'a \<Rightarrow> 'a \<Rightarrow> 'e + 'a" where
  "hss_formula A s_K s_H g n delta phi alpha =
     bind_res (fpow A s_K alpha) (\<lambda>p1.
     bind_res (fsub A (fnum A 1) alpha) (\<lambda>e2.
     bind_res (fpow A s_H e2) (\<lambda>p2.
     steady_state A p1 p2 g n delta phi alpha s_K s_H)))"





section \<open>Sequencing and array access\<close>

lemma bind_res_simps [simp]:
  "bind_res (Inl e) f = Inl e"
  "bind_res (Inr v) f = f v"
  by (simp_all add: bind_res_def)

lemma host_simps [simp]:
  "host (Inl e) = Inl (HostError e)"
  "host (Inr v) = Inr v"
  by (simp_all add: host_def)

lemma host_bind_res: "host (bind_res m f) = bind_res (host m) (\<lambda>v. host (f v))"
  by (cases m) simp_all

lemma bind_res_assoc:
  "bind_res (bind_res m f) g = bind_res m (\<lambda>v. bind_res (f v) g)"
  by (cases m) simp_all

lemma bind_res_Inr_iff:
  "bind_res m f = Inr y \<longleftrightarrow> (\<exists>v. m = Inr v \<and> f v = Inr y)"
  by (cases m) simp_all

lemma bind_res_Inl_iff:
  "bind_res m f = Inl e \<longleftrightarrow> m = Inl e \<or> (\<exists>v. m = Inr v \<and> f v = Inl e)"
  by (cases m) simp_all

lemma host_Inr_iff: "host m = Inr v \<longleftrightarrow> m = Inr v"
  by (cases m) simp_all

lemma host_Inl_iff: "host m = Inl e \<longleftrightarrow> (\<exists>he. m = Inl he \<and> e = HostError he)"
  by (cases m) auto

lemma norm_index_nonneg:
  "0 \<le> i \<Longrightarrow> i < int len \<Longrightarrow> norm_index len i = Inr (nat i)"
  by (simp add: norm_index_def)

lemma getitem_nonneg:
  "0 \<le> i \<Longrightarrow> i < int (length xs) \<Longrightarrow> getitem xs i = Inr (xs ! nat i)"
  by (simp add: getitem_def norm_index_nonneg)

lemma setitem_nonneg:
  "0 \<le> i \<Longrightarrow> i < int (length xs) \<Longrightarrow> setitem xs i v = Inr (xs[nat i := v])"
  by (simp add: setitem_def norm_index_nonneg)

section \<open>One pass of the loop\<close>

text \<open>
  For \<open>1 \<le> t \<le> length k\<close> the subscript \<open>t - 1\<close> is in range, and the right-hand side
  is the update rule on the entries at \<open>t - 1\<close>.
\<close>

lemma transition_accumulation:
  fixes A :: "('a, 'e) arith"
  assumes "1 \<le> t" and "t \<le> int (length k)"
    and "length h = length k" and "length x = length k"
  shows "transition A s n delta alpha phi g k h x t =
         host (accumulation A s n delta alpha phi g
                 (k ! nat (t - 1)) (h ! nat (t - 1)) (x ! nat (t - 1)))"
proof -
  have gk: "getitem k (t - 1) = (Inr (k ! nat (t - 1)) :: 'e error + 'a)"
    using assms by (intro getitem_nonneg) simp_all
  have gh: "getitem h (t - 1) = (Inr (h ! nat (t - 1)) :: 'e error + 'a)"
    using assms by (intro getitem_nonneg) simp_all
  have gx: "getitem x (t - 1) = (Inr (x ! nat (t - 1)) :: 'e error + 'a)"
    using assms by (intro getitem_nonneg) simp_all
  show ?thesis
    unfolding transition_def accumulation_def
    by (simp add: gk gh gx host_bind_res)
qed

text \<open>
  The store into \<open>k[t]\<close> does not change \<open>k[t-1]\<close>, so the second assignment reads the
  same previous values as the first.
\<close>

lemma capital_loop_step:
  fixes A :: "('a, 'e) arith"
  assumes "1 \<le> t" and "t < int (length k)" and "length h = length k"
  shows "capital_loop A s_K s_H n delta alpha phi g (t # ts) k h =
         bind_res (host (accumulation A s_K n delta alpha phi g
                     (k ! nat (t - 1)) (h ! nat (t - 1)) (k ! nat (t - 1)))) (\<lambda>v.
         bind_res (host (accumulation A s_H n delta alpha phi g
                     (k ! nat (t - 1)) (h ! nat (t - 1)) (h ! nat (t - 1)))) (\<lambda>w.
         capital_loop A s_K s_H n delta alpha phi g ts (k[nat t := v]) (h[nat t := w])))"
proof -
  have tk: "transition A s_K n delta alpha phi g k h k t =
            host (accumulation A s_K n delta alpha phi g
                    (k ! nat (t - 1)) (h ! nat (t - 1)) (k ! nat (t - 1)))"
    using assms by (intro transition_accumulation) simp_all
  have sk: "setitem k t v = (Inr (k[nat t := v]) :: 'e error + 'a list)" for v
    using assms by (intro setitem_nonneg) simp_all
  have sh: "setitem h t w = (Inr (h[nat t := w]) :: 'e error + 'a list)" for w
    using assms by (intro setitem_nonneg) simp_all
  have neq: "nat t \<noteq> nat (t - 1)"
    using assms by simp
  have th: "transition A s_H n delta alpha phi g (k[nat t := v]) h h t =
            host (accumulation A s_H n delta alpha phi g
                    (k ! nat (t - 1)) (h ! nat (t - 1)) (h ! nat (t - 1)))" for v
  proof -
    have "transition A s_H n delta alpha phi g (k[nat t := v]) h h t =
          host (accumulation A s_H n delta alpha phi g
                  ((k[nat t := v]) ! nat (t - 1)) (h ! nat (t - 1)) (h ! nat (t - 1)))"
      using assms by (intro transition_accumulation) simp_all
    then show ?thesis
      using neq by simp
  qed
  show ?thesis
    by (simp add: tk sk sh th)
qed

section \<open>The loop invariant\<close>

text \<open>
  A run of the loop over \<open>a, \<dots>, b\<close> that returns keeps the lengths, leaves the entries
  below \<open>a\<close> alone, and leaves every entry \<open>t\<close> of \<open>a, \<dots>, b\<close> equal to the update rule on
  the final entries at \<open>t - 1\<close>: later passes write above \<open>t\<close> only.
\<close>

lemma capital_loop_upto:
  assumes "capital_loop A s_K s_H n delta alpha phi g [a..b] k h = Inr (k', h')"
    and "1 \<le> a" and "b < int (length k)" and "length h = length k"
  shows "length k' = length k \<and> length h' = length k \<and>
         (\<forall>i. i < nat a \<longrightarrow> k' ! i = k ! i \<and> h' ! i = h ! i) \<and>
         (\<forall>t. a \<le> t \<and> t \<le> b \<longrightarrow>
            accumulation A s_K n delta alpha phi g
              (k' ! nat (t - 1)) (h' ! nat (t - 1)) (k' ! nat (t - 1)) = Inr (k' ! nat t) \<and>
            accumulation A s_H n delta alpha phi g
              (k' ! nat (t - 1)) (h' ! nat (t - 1)) (h' ! nat (t - 1)) = Inr (h' ! nat t))"
  using assms
proof (induction a b arbitrary: k h rule: upto.induct)
  case (1 a b)
  show ?case
  proof (cases "a \<le> b")
    case False
    then have "[a..b] = []" by simp
    with "1.prems" have "k' = k" "h' = h" by simp_all
    with False "1.prems"(4) show ?thesis by auto
  next
    case True
    then have unfold: "[a..b] = a # [a + 1..b]"
      by (simp add: upto.simps)
    have lt: "a < int (length k)"
      using True "1.prems" by simp
    let ?kp = "k ! nat (a - 1)" and ?hp = "h ! nat (a - 1)"
    from "1.prems"(1) obtain v w where
      v: "accumulation A s_K n delta alpha phi g ?kp ?hp ?kp = Inr v" and
      w: "accumulation A s_H n delta alpha phi g ?kp ?hp ?hp = Inr w" and
      rest: "capital_loop A s_K s_H n delta alpha phi g [a + 1..b]
               (k[nat a := v]) (h[nat a := w]) = Inr (k', h')"
      unfolding unfold capital_loop_step [OF "1.prems"(2) lt "1.prems"(4)]
      by (auto simp: bind_res_Inr_iff host_Inr_iff)
    have IH: "length k' = length k \<and> length h' = length k \<and>
         (\<forall>i. i < nat (a + 1) \<longrightarrow>
            k' ! i = (k[nat a := v]) ! i \<and> h' ! i = (h[nat a := w]) ! i) \<and>
         (\<forall>t. a + 1 \<le> t \<and> t \<le> b \<longrightarrow>
            accumulation A s_K n delta alpha phi g
              (k' ! nat (t - 1)) (h' ! nat (t - 1)) (k' ! nat (t - 1)) = Inr (k' ! nat t) \<and>
            accumulation A s_H n delta alpha phi g
              (k' ! nat (t - 1)) (h' ! nat (t - 1)) (h' ! nat (t - 1)) = Inr (h' ! nat t))"
      using "1.IH" [OF True rest] "1.prems" by simp
    have old: "k' ! i = k ! i \<and> h' ! i = h ! i" if "i < nat a" for i
      using IH that by simp
    have new: "k' ! nat a = v" "h' ! nat a = w"
      using IH lt "1.prems" by simp_all
    have prev: "k' ! nat (a - 1) = ?kp" "h' ! nat (a - 1) = ?hp"
      using old [of "nat (a - 1)"] "1.prems"(2) by simp_all
    have here: "accumulation A s_K n delta alpha phi g
              (k' ! nat (t - 1)) (h' ! nat (t - 1)) (k' ! nat (t - 1)) = Inr (k' ! nat t) \<and>
            accumulation A s_H n delta alpha phi g
              (k' ! nat (t - 1)) (h' ! nat (t - 1)) (h' ! nat (t - 1)) = Inr (h' ! nat t)"
      if "a \<le> t" "t \<le> b" for t
    proof (cases "t = a")
      case True
      then show ?thesis using v w new prev by simp
    next
      case False
      with that have "a + 1 \<le> t" by simp
      with IH that show ?thesis by blast
    qed
    show ?thesis
      using IH old here by blast
  qed
qed

text \<open>For \<open>T \<ge> 1\<close> the allocation and the two initial stores succeed.\<close>

lemma capital_unfold:
  fixes A :: "('a, 'e) arith"
  assumes "1 \<le> T"
  shows "capital A s_K s_H n delta alpha phi k0 h0 T g =
         capital_loop A s_K s_H n delta alpha phi g [1..T - 1]
           ((replicate (nat T) (fnum A 0))[0 := k0])
           ((replicate (nat T) (fnum A 0))[0 := h0])"
proof -
  have "0 < int (length (replicate (nat T) (fnum A 0)))"
    using assms by simp
  then have "setitem (replicate (nat T) (fnum A 0)) 0 v =
             (Inr ((replicate (nat T) (fnum A 0))[0 := v]) :: 'e error + 'a list)" for v
    using setitem_nonneg [of 0 "replicate (nat T) (fnum A 0)" v] by simp
  then show ?thesis
    using assms by (simp add: capital_def np_zeros_def)
qed

lemma capital_one:
  "capital A s_K s_H n delta alpha phi k0 h0 1 g = Inr ([k0], [h0])"
  by (simp add: capital_unfold)

lemma capital_entries:
  assumes "capital A s_K s_H n delta alpha phi k0 h0 T g = Inr (k, h)" and "1 \<le> T"
  shows "int (length k) = T" and "int (length h) = T"
    and "k ! 0 = k0" and "h ! 0 = h0"
    and "\<And>t. 1 \<le> t \<Longrightarrow> t < T \<Longrightarrow>
            accumulation A s_K n delta alpha phi g
              (k ! nat (t - 1)) (h ! nat (t - 1)) (k ! nat (t - 1)) = Inr (k ! nat t) \<and>
            accumulation A s_H n delta alpha phi g
              (k ! nat (t - 1)) (h ! nat (t - 1)) (h ! nat (t - 1)) = Inr (h ! nat t)"
proof -
  let ?z = "replicate (nat T) (fnum A 0)"
  have run: "capital_loop A s_K s_H n delta alpha phi g [1..T - 1]
               (?z[0 := k0]) (?z[0 := h0]) = Inr (k, h)"
    using assms by (simp add: capital_unfold)
  have inv: "length k = length (?z[0 := k0]) \<and> length h = length (?z[0 := k0]) \<and>
         (\<forall>i. i < nat 1 \<longrightarrow> k ! i = (?z[0 := k0]) ! i \<and> h ! i = (?z[0 := h0]) ! i) \<and>
         (\<forall>t. 1 \<le> t \<and> t \<le> T - 1 \<longrightarrow>
            accumulation A s_K n delta alpha phi g
              (k ! nat (t - 1)) (h ! nat (t - 1)) (k ! nat (t - 1)) = Inr (k ! nat t) \<and>
            accumulation A s_H n delta alpha phi g
              (k ! nat (t - 1)) (h ! nat (t - 1)) (h ! nat (t - 1)) = Inr (h ! nat t))"
    using assms(2) by (intro capital_loop_upto [OF run]) simp_all
  show "int (length k) = T" "int (length h) = T"
    using inv assms(2) by simp_all
  have "0 < nat T" using assms(2) by simp
  then show "k ! 0 = k0" "h ! 0 = h0"
    using inv by simp_all
  show "accumulation A s_K n delta alpha phi g
              (k ! nat (t - 1)) (h ! nat (t - 1)) (k ! nat (t - 1)) = Inr (k ! nat t) \<and>
            accumulation A s_H n delta alpha phi g
              (k ! nat (t - 1)) (h ! nat (t - 1)) (h ! nat (t - 1)) = Inr (h ! nat t)"
    if "1 \<le> t" "t < T" for t
    using inv that by simp
qed

section \<open>Runs in the exact interpretation\<close>

lemma exact_run_three:
  "capital exact_arith 2 3 1 1 1 1 1 1 3 0 = Inr ([1, 1, 3 / 2], [1, 3 / 2, 9 / 4])"
  by (simp add: capital_def np_zeros_def setitem_def getitem_def norm_index_def
      transition_def exact_arith_def eval_nat_numeral upto.simps)

lemma exact_run_two:
  "capital exact_arith 2 3 1 1 1 1 1 (3 / 2) 2 0 = Inr ([1, 3 / 2], [3 / 2, 9 / 4])"
  by (simp add: capital_def np_zeros_def setitem_def getitem_def norm_index_def
      transition_def exact_arith_def eval_nat_numeral upto.simps)

lemma exact_run_symmetric:
  "capital exact_arith 2 2 0 1 1 1 1 1 3 0 = Inr ([1, 2, 8], [1, 2, 8])"
  by (simp add: capital_def np_zeros_def setitem_def getitem_def norm_index_def
      transition_def exact_arith_def eval_nat_numeral upto.simps)

section \<open>The recurrence\<close>

text \<open>
  C1. Whenever \<open>capital\<close> returns the arrays \<open>k\<close> and \<open>h\<close> for some \<open>T \<ge> 1\<close>, every
  \<open>t\<close> in \<open>1, \<dots>, T-1\<close> has
  \<open>k[t] = (s_K\<cdot>k[t-1]^alpha\<cdot>h[t-1]^phi + (1-delta)\<cdot>k[t-1]) / (1+n+g)\<close> and
  \<open>h[t] = (s_H\<cdot>k[t-1]^alpha\<cdot>h[t-1]^phi + (1-delta)\<cdot>h[t-1]) / (1+n+g)\<close>, in the host
  arithmetic.
\<close>

theorem capital_recurrence:
  assumes "capital A s_K s_H n delta alpha phi k0 h0 T g = Inr (k, h)"
    and "1 \<le> T" and "1 \<le> t" and "t < T"
  shows "accumulation A s_K n delta alpha phi g
           (k ! nat (t - 1)) (h ! nat (t - 1)) (k ! nat (t - 1)) = Inr (k ! nat t) \<and>
         accumulation A s_H n delta alpha phi g
           (k ! nat (t - 1)) (h ! nat (t - 1)) (h ! nat (t - 1)) = Inr (h ! nat t)"
  using capital_entries(5) [OF assms] .

text \<open>
  The run with \<open>s_K = 2\<close>, \<open>s_H = 3\<close>, \<open>n = delta = alpha = phi = 1\<close>, \<open>g = 0\<close>,
  \<open>k0 = h0 = 1\<close> and \<open>T = 3\<close>, at \<open>t = 2\<close>.
\<close>

theorem capital_recurrence_witness:
  "capital exact_arith 2 3 1 1 1 1 1 1 3 0 = Inr ([1, 1, 3 / 2], [1, 3 / 2, 9 / 4]) \<and>
   (1::int) \<le> 3 \<and> (1::int) \<le> 2 \<and> (2::int) < 3 \<and>
   accumulation exact_arith 2 1 1 1 1 0 1 (3 / 2) 1 = Inr (3 / 2) \<and>
   accumulation exact_arith 3 1 1 1 1 0 1 (3 / 2) (3 / 2) = Inr (9 / 4)"
  using capital_recurrence [OF exact_run_three, of 2] exact_run_three by simp


section \<open>Initial condition and length\<close>

text \<open>
  C3. For every \<open>T \<ge> 1\<close>, arrays returned by \<open>capital\<close> have \<open>k[0] = k0\<close> and
  \<open>h[0] = h0\<close>; for \<open>T = 1\<close> the call returns \<open>[k0]\<close> and \<open>[h0]\<close>.
\<close>

theorem capital_initial_condition:
  assumes "1 \<le> T"
    and "capital A s_K s_H n delta alpha phi k0 h0 T g = Inr (k, h)"
  shows "k ! 0 = k0 \<and> h ! 0 = h0 \<and>
         capital A s_K s_H n delta alpha phi k0 h0 1 g = Inr ([k0], [h0])"
  using capital_entries(3,4) [OF assms(2,1)] by (simp add: capital_one)

text \<open>The run of three periods starts at \<open>k0 = h0 = 1\<close>.\<close>

theorem capital_initial_condition_witness:
  "(1::int) \<le> 3 \<and>
   capital exact_arith 2 3 1 1 1 1 1 1 3 0 = Inr ([1, 1, 3 / 2], [1, 3 / 2, 9 / 4]) \<and>
   [1, 1, 3 / 2] ! 0 = (1::real) \<and> [1, 3 / 2, 9 / 4] ! 0 = (1::real) \<and>
   capital exact_arith 2 3 1 1 1 1 1 1 1 0 = Inr ([1], [1])"
  using capital_initial_condition [OF _ exact_run_three] exact_run_three by simp

text \<open>
  C4. For every \<open>T \<ge> 1\<close>, both arrays returned by \<open>capital\<close> have length exactly \<open>T\<close>.
\<close>

theorem capital_length:
  assumes "1 \<le> T"
    and "capital A s_K s_H n delta alpha phi k0 h0 T g = Inr (k, h)"
  shows "int (length k) = T \<and> int (length h) = T"
  using capital_entries(1,2) [OF assms(2,1)] by simp

text \<open>The run of three periods returns two arrays of three entries.\<close>

theorem capital_length_witness:
  "(1::int) \<le> 3 \<and>
   capital exact_arith 2 3 1 1 1 1 1 1 3 0 = Inr ([1, 1, 3 / 2], [1, 3 / 2, 9 / 4]) \<and>
   int (length [1, 1, 3 / 2 :: real]) = 3 \<and> int (length [1, 3 / 2, 9 / 4 :: real]) = 3"
  using capital_length [OF _ exact_run_three] exact_run_three by simp

section \<open>Dependence on the previous step only\<close>

text \<open>
  C5. The entries \<open>k[t]\<close> and \<open>h[t]\<close> are a function of \<open>k[t-1]\<close>, \<open>h[t-1]\<close> and the
  parameters of the call, and of nothing else: in two runs with the same parameters,
  whatever their initial values, horizons and earlier entries, two steps that start from
  the same pair of previous values produce the same pair of values. A run is a function
  of its arguments alone: the module state in which it is called does not enter its
  result.
\<close>

theorem capital_previous_step_only:
  assumes "capital A s_K s_H n delta alpha phi k0 h0 T g = Inr (k, h)"
    and "capital A s_K s_H n delta alpha phi k0' h0' T' g = Inr (k', h')"
    and "1 \<le> t" and "t < T" and "1 \<le> t'" and "t' < T'"
    and "k ! nat (t - 1) = k' ! nat (t' - 1)"
    and "h ! nat (t - 1) = h' ! nat (t' - 1)"
  shows "k ! nat t = k' ! nat t' \<and> h ! nat t = h' ! nat t' \<and>
         fst (capital_call A s_K s_H n delta alpha phi k0 h0 T g M) =
         fst (capital_call A s_K s_H n delta alpha phi k0 h0 T g M')"
proof -
  have T: "1 \<le> T" "1 \<le> T'"
    using assms(3-6) by simp_all
  note one = capital_entries(5) [OF assms(1) T(1) assms(3,4)]
  note two = capital_entries(5) [OF assms(2) T(2) assms(5,6)]
  from one two assms(7,8) show ?thesis
    by (simp add: capital_call_def)
qed

text \<open>
  Step 2 of the run of three periods from \<open>(1, 1)\<close> and step 1 of a run of two periods
  from \<open>(1, 3/2)\<close> both start from the previous values \<open>(1, 3/2)\<close>, and both produce
  \<open>(3/2, 9/4)\<close>.
\<close>

theorem capital_previous_step_only_witness:
  "capital exact_arith 2 3 1 1 1 1 1 1 3 0 = Inr ([1, 1, 3 / 2], [1, 3 / 2, 9 / 4]) \<and>
   capital exact_arith 2 3 1 1 1 1 1 (3 / 2) 2 0 = Inr ([1, 3 / 2], [3 / 2, 9 / 4]) \<and>
   [1, 1, 3 / 2] ! nat (2 - 1) = [1, 3 / 2 :: real] ! nat (1 - 1) \<and>
   [1, 3 / 2, 9 / 4] ! nat (2 - 1) = [3 / 2, 9 / 4 :: real] ! nat (1 - 1) \<and>
   [1, 1, 3 / 2] ! nat 2 = [1, 3 / 2 :: real] ! nat 1 \<and>
   [1, 3 / 2, 9 / 4] ! nat 2 = [3 / 2, 9 / 4 :: real] ! nat 1"
  using capital_previous_step_only [OF exact_run_three exact_run_two, of 2 1]
    exact_run_three exact_run_two
  by simp

section \<open>Failure modes\<close>

text \<open>
  The array program computes the simulation of the specification: for \<open>T \<ge> 1\<close> the
  call returns the two columns of the trajectory of \<open>T - 1\<close> updates from \<open>(k0, h0)\<close>,
  or raises the error of the first update that is not defined.
\<close>

lemma accumulation_numerator:
  "accumulation A s n delta alpha phi g kp hp xp =
   bind_res (numerator A s delta alpha phi kp hp xp) (\<lambda>num.
   bind_res (divisor A n g) (\<lambda>den. fdiv A num den))"
  by (simp add: accumulation_def numerator_def divisor_def bind_res_assoc)

lemma capital_loop_trajectory:
  fixes A :: "('a, 'e) arith"
  assumes "1 \<le> a" and "a \<le> b + 1" and "b < int (length k)" and "length h = length k"
  shows "capital_loop A s_K s_H n delta alpha phi g [a..b] k h =
         (case trajectory A s_K s_H n delta alpha phi g
                 (k ! nat (a - 1), h ! nat (a - 1)) (nat (b + 1 - a)) of
            Inl he \<Rightarrow> Inl (HostError he)
          | Inr ps \<Rightarrow> Inr (take (nat (a - 1)) k @ map fst ps @ drop (nat (b + 1)) k,
                         take (nat (a - 1)) h @ map snd ps @ drop (nat (b + 1)) h))"
  using assms
proof (induction a b arbitrary: k h rule: upto.induct)
  case (1 a b)
  let ?i = "nat (a - 1)"
  have i: "?i < length k" "?i < length h"
    using "1.prems" by simp_all
  show ?case
  proof (cases "a \<le> b")
    case False
    with "1.prems" have ab: "a = b + 1" by simp
    then have "[a..b] = []" "nat (b + 1 - a) = 0" "nat (b + 1) = Suc ?i"
      using "1.prems"(1) by simp_all
    then show ?thesis
      using id_take_nth_drop [OF i(1)] id_take_nth_drop [OF i(2)] by simp
  next
    case True
    then have unfold: "[a..b] = a # [a + 1..b]"
      by (simp add: upto.simps)
    have lt: "a < int (length k)"
      using True "1.prems" by simp
    have j: "nat (b + 1 - a) = Suc (nat (b + 1 - (a + 1)))"
      using True by simp
    let ?kp = "k ! ?i" and ?hp = "h ! ?i"
    show ?thesis
    proof (cases "accumulation A s_K n delta alpha phi g ?kp ?hp ?kp")
      case (Inl he)
      then show ?thesis
        unfolding unfold j capital_loop_step [OF "1.prems"(1) lt "1.prems"(4)]
        by (simp add: step_def)
    next
      case v: (Inr v)
      show ?thesis
      proof (cases "accumulation A s_H n delta alpha phi g ?kp ?hp ?hp")
        case (Inl he)
        then show ?thesis
          unfolding unfold j capital_loop_step [OF "1.prems"(1) lt "1.prems"(4)]
          by (simp add: step_def v)
      next
        case w: (Inr w)
        let ?k1 = "k[nat a := v]" and ?h1 = "h[nat a := w]"
        have IH: "capital_loop A s_K s_H n delta alpha phi g [a + 1..b] ?k1 ?h1 =
           (case trajectory A s_K s_H n delta alpha phi g
                 (?k1 ! nat (a + 1 - 1), ?h1 ! nat (a + 1 - 1)) (nat (b + 1 - (a + 1))) of
              Inl he \<Rightarrow> Inl (HostError he)
            | Inr ps \<Rightarrow> Inr (take (nat (a + 1 - 1)) ?k1 @ map fst ps @ drop (nat (b + 1)) ?k1,
                           take (nat (a + 1 - 1)) ?h1 @ map snd ps @ drop (nat (b + 1)) ?h1))"
          using True "1.prems" by (intro "1.IH") simp_all
        have at: "?k1 ! nat a = v" "?h1 ! nat a = w"
          using lt "1.prems" by simp_all
        have suc: "nat a = Suc ?i"
          using "1.prems"(1) by simp
        have tk: "take (nat a) k = take ?i k @ [?kp]"
          using i(1) by (simp add: suc take_Suc_conv_app_nth)
        have th: "take (nat a) h = take ?i h @ [?hp]"
          using i(2) by (simp add: suc take_Suc_conv_app_nth)
        have dk: "drop (nat (b + 1)) ?k1 = drop (nat (b + 1)) k"
          and dh: "drop (nat (b + 1)) ?h1 = drop (nat (b + 1)) h"
          using True "1.prems"(1) by simp_all
        have IH': "capital_loop A s_K s_H n delta alpha phi g [a + 1..b] ?k1 ?h1 =
           (case trajectory A s_K s_H n delta alpha phi g (v, w) (nat (b + 1 - (a + 1))) of
              Inl he \<Rightarrow> Inl (HostError he)
            | Inr ps \<Rightarrow> Inr (take ?i k @ ?kp # map fst ps @ drop (nat (b + 1)) k,
                           take ?i h @ ?hp # map snd ps @ drop (nat (b + 1)) h))"
        proof (cases "trajectory A s_K s_H n delta alpha phi g (v, w) (nat (b + 1 - (a + 1)))")
          case (Inl he)
          then show ?thesis using IH at by simp
        next
          case (Inr ps)
          then show ?thesis using IH at tk th dk dh by simp
        qed
        show ?thesis
          unfolding unfold j capital_loop_step [OF "1.prems"(1) lt "1.prems"(4)]
          by (cases "trajectory A s_K s_H n delta alpha phi g (v, w) (nat (b + 1 - (a + 1)))")
            (simp_all add: step_def v w IH')
      qed
    qed
  qed
qed

lemma capital_trajectory:
  fixes A :: "('a, 'e) arith"
  assumes "1 \<le> T"
  shows "capital A s_K s_H n delta alpha phi k0 h0 T g =
         (case trajectory A s_K s_H n delta alpha phi g (k0, h0) (nat (T - 1)) of
            Inl he \<Rightarrow> Inl (HostError he)
          | Inr ps \<Rightarrow> Inr (map fst ps, map snd ps))"
proof -
  let ?k = "(replicate (nat T) (fnum A 0))[0 := k0]"
  let ?h = "(replicate (nat T) (fnum A 0))[0 := h0]"
  have len: "T - 1 < int (length ?k)" "length ?h = length ?k" "(1::int) \<le> T - 1 + 1"
    using assms by simp_all
  have first: "?k ! nat (1 - 1) = k0" "?h ! nat (1 - 1) = h0"
    using assms by simp_all
  have full: "drop (nat (T - 1 + 1)) ?k = []" "drop (nat (T - 1 + 1)) ?h = []"
    by simp_all
  show ?thesis
    unfolding capital_unfold [OF assms]
      capital_loop_trajectory [OF order_refl len(3) len(1,2)] first full
    by (simp split: sum.splits)
qed

text \<open>On a host whose operations never raise, every trajectory is defined.\<close>

lemma trajectory_total:
  assumes "\<And>x y. \<exists>z. fadd A x y = Inr z" and "\<And>x y. \<exists>z. fsub A x y = Inr z"
    and "\<And>x y. \<exists>z. fmul A x y = Inr z" and "\<And>x y. \<exists>z. fdiv A x y = Inr z"
    and "\<And>x y. \<exists>z. fpow A x y = Inr z"
  shows "\<exists>ps. trajectory A s_K s_H n delta alpha phi g p j = Inr ps"
proof -
  have bind: "\<exists>z. bind_res (f x y) c = Inr z"
    if "\<And>x y. \<exists>z. f x y = Inr z" and "\<And>v. \<exists>z. c v = Inr z"
    for f :: "'a \<Rightarrow> 'a \<Rightarrow> 'b + 'a" and c :: "'a \<Rightarrow> 'b + 'c" and x y
  proof -
    from that(1) obtain v where "f x y = Inr v" by blast
    with that(2) [of v] show ?thesis by simp
  qed
  have acc: "\<exists>v. accumulation A s n delta alpha phi g kp hp xp = Inr v" for s kp hp xp
    unfolding accumulation_def by (intro bind assms)
  have step: "\<exists>q. step A s_K s_H n delta alpha phi g p = Inr q" for p
  proof -
    obtain v w where "accumulation A s_K n delta alpha phi g (fst p) (snd p) (fst p) = Inr v"
      and "accumulation A s_H n delta alpha phi g (fst p) (snd p) (snd p) = Inr w"
      using acc by blast
    then show ?thesis by (simp add: step_def)
  qed
  show ?thesis
  proof (induction j arbitrary: p)
    case 0
    show ?case by simp
  next
    case (Suc j)
    obtain q where q: "step A s_K s_H n delta alpha phi g p = Inr q"
      using step by blast
    obtain ps where "trajectory A s_K s_H n delta alpha phi g q j = Inr ps"
      using Suc by blast
    with q show ?case by simp
  qed
qed

text \<open>
  Runs with \<open>n = -1\<close> and \<open>g = 0\<close>, so that \<open>1+n+g = 0\<close>, on the host that does not
  raise, and a run in exact arithmetic whose second pair has a negative entry.
\<close>

lemma extended_run_one:
  "capital extended_arith (Fin 2) (Fin 3) (Fin (- 1)) (Fin 1) (Fin 1) (Fin 1) (Fin 1) (Fin 1) 1
     (Fin 0) = Inr ([Fin 1], [Fin 1])"
  by (simp add: capital_one)

lemma extended_run_two:
  "capital extended_arith (Fin 2) (Fin 3) (Fin (- 1)) (Fin 1) (Fin 1) (Fin 1) (Fin 1) (Fin 1) 2
     (Fin 0) = Inr ([Fin 1, PInf], [Fin 1, PInf])"
  by (simp add: capital_def np_zeros_def setitem_def getitem_def norm_index_def
      transition_def extended_arith_def xsub_def xpow_def inf_of_def
      eval_nat_numeral upto.simps)

lemma exact_run_negative:
  "capital exact_arith (- 1) 1 0 1 1 1 1 1 2 0 = Inr ([1, - 1], [1, 1])"
  by (simp add: capital_def np_zeros_def setitem_def getitem_def norm_index_def
      transition_def exact_arith_def eval_nat_numeral upto.simps)

text \<open>
  C6, as stated: the call fails by a division by zero exactly when \<open>1+n+g = 0\<close>. With
  \<open>s_K = 2\<close>, \<open>s_H = 3\<close>, \<open>n = -1\<close>, \<open>g = 0\<close> and all other arguments \<open>1\<close>, the divisor
  \<open>1+n+g\<close> is zero and the call does not fail: for \<open>T = 1\<close> the loop body does not run
  and the call returns \<open>[1]\<close> and \<open>[1]\<close>; for \<open>T = 2\<close> the division returns \<open>inf\<close> and the
  call returns \<open>[1, inf]\<close> twice.
\<close>

theorem capital_division_counterexample:
  "divisor extended_arith (Fin (- 1)) (Fin 0) = Inr (Fin 0) \<and>
   capital extended_arith (Fin 2) (Fin 3) (Fin (- 1)) (Fin 1) (Fin 1) (Fin 1) (Fin 1) (Fin 1) 1
     (Fin 0) = Inr ([Fin 1], [Fin 1]) \<and>
   capital extended_arith (Fin 2) (Fin 3) (Fin (- 1)) (Fin 1) (Fin 1) (Fin 1) (Fin 1) (Fin 1) 2
     (Fin 0) = Inr ([Fin 1, PInf], [Fin 1, PInf])"
  using extended_run_one extended_run_two
  by (simp add: divisor_def extended_arith_def)

text \<open>
  C6, amended. \<open>capital\<close> has no check and no error handling of its own. For every
  \<open>T \<ge> 1\<close> and every host arithmetic:
  \<^item> the call returns the trajectory when every update along the run is defined, and
    otherwise raises the error of the host operation that failed: there is no other
    failure;
  \<^item> an update divides once, its dividend by \<open>1+n+g\<close>;
  \<^item> for \<open>T = 1\<close> nothing is computed and the call returns \<open>[k0]\<close> and \<open>[h0]\<close>, whatever
    \<open>1+n+g\<close> is;
  \<^item> on a host whose operations do not raise, the call returns;
  \<^item> for \<open>T \<ge> 2\<close>, when the division of the first update of \<open>k\<close> returns, its result
    is the entry \<open>k[1]\<close> of a returning call: \<open>inf\<close> for a zero \<open>1+n+g\<close> and a positive
    dividend on the host of the arrays.
\<close>

theorem capital_failure_modes:
  fixes A :: "('a, 'e) arith"
  assumes "1 \<le> T"
  shows "capital A s_K s_H n delta alpha phi k0 h0 T g =
           (case trajectory A s_K s_H n delta alpha phi g (k0, h0) (nat (T - 1)) of
              Inl he \<Rightarrow> Inl (HostError he)
            | Inr ps \<Rightarrow> Inr (map fst ps, map snd ps)) \<and>
         accumulation A s n delta alpha phi g kp hp xp =
           bind_res (numerator A s delta alpha phi kp hp xp) (\<lambda>num.
           bind_res (divisor A n g) (\<lambda>den. fdiv A num den)) \<and>
         (T = 1 \<longrightarrow> capital A s_K s_H n delta alpha phi k0 h0 T g = Inr ([k0], [h0])) \<and>
         ((\<forall>x y. \<exists>z. fadd A x y = Inr z) \<and> (\<forall>x y. \<exists>z. fsub A x y = Inr z) \<and>
          (\<forall>x y. \<exists>z. fmul A x y = Inr z) \<and> (\<forall>x y. \<exists>z. fdiv A x y = Inr z) \<and>
          (\<forall>x y. \<exists>z. fpow A x y = Inr z) \<longrightarrow>
            (\<exists>k h. capital A s_K s_H n delta alpha phi k0 h0 T g = Inr (k, h))) \<and>
         (2 \<le> T \<and> numerator A s_K delta alpha phi k0 h0 k0 = Inr num \<and>
          divisor A n g = Inr den \<and> fdiv A num den = Inr q \<and>
          capital A s_K s_H n delta alpha phi k0 h0 T g = Inr (k, h) \<longrightarrow> k ! 1 = q)"
proof (intro conjI impI)
  show run: "capital A s_K s_H n delta alpha phi k0 h0 T g =
           (case trajectory A s_K s_H n delta alpha phi g (k0, h0) (nat (T - 1)) of
              Inl he \<Rightarrow> Inl (HostError he)
            | Inr ps \<Rightarrow> Inr (map fst ps, map snd ps))"
    by (rule capital_trajectory [OF assms])
  show "accumulation A s n delta alpha phi g kp hp xp =
           bind_res (numerator A s delta alpha phi kp hp xp) (\<lambda>num.
           bind_res (divisor A n g) (\<lambda>den. fdiv A num den))"
    by (rule accumulation_numerator)
  show "capital A s_K s_H n delta alpha phi k0 h0 T g = Inr ([k0], [h0])" if "T = 1"
    using that by (simp add: capital_one)
  show "\<exists>k h. capital A s_K s_H n delta alpha phi k0 h0 T g = Inr (k, h)"
    if total: "(\<forall>x y. \<exists>z. fadd A x y = Inr z) \<and> (\<forall>x y. \<exists>z. fsub A x y = Inr z) \<and>
          (\<forall>x y. \<exists>z. fmul A x y = Inr z) \<and> (\<forall>x y. \<exists>z. fdiv A x y = Inr z) \<and>
          (\<forall>x y. \<exists>z. fpow A x y = Inr z)"
  proof -
    have "\<exists>ps. trajectory A s_K s_H n delta alpha phi g (k0, h0) (nat (T - 1)) = Inr ps"
      using total by (intro trajectory_total) blast+
    then show ?thesis
      using run by auto
  qed
  show "k ! 1 = q"
    if first: "2 \<le> T \<and> numerator A s_K delta alpha phi k0 h0 k0 = Inr num \<and>
          divisor A n g = Inr den \<and> fdiv A num den = Inr q \<and>
          capital A s_K s_H n delta alpha phi k0 h0 T g = Inr (k, h)"
  proof -
    from first have ret: "capital A s_K s_H n delta alpha phi k0 h0 T g = Inr (k, h)"
      by simp
    have "accumulation A s_K n delta alpha phi g
              (k ! nat (1 - 1)) (h ! nat (1 - 1)) (k ! nat (1 - 1)) = Inr (k ! nat 1)"
      using capital_entries(5) [OF ret assms, of 1] first by simp
    moreover have "k ! 0 = k0" "h ! 0 = h0"
      using capital_entries(3,4) [OF ret assms] by simp_all
    ultimately show ?thesis
      using first by (simp add: accumulation_numerator)
  qed
qed

text \<open>
  On the host that does not raise, with \<open>1+n+g = 0\<close>: two periods return with
  \<open>k[1] = 2 / 0 = inf\<close>, and one period returns \<open>[1]\<close> and \<open>[1]\<close>. In exact arithmetic,
  the run with \<open>s_K = -1\<close> has the trajectory \<open>(1, 1), (-1, 1)\<close> and returns it, although
  a third period would not be defined.
\<close>

theorem capital_failure_modes_witness:
  "(1::int) \<le> 2 \<and>
   numerator extended_arith (Fin 2) (Fin 1) (Fin 1) (Fin 1) (Fin 1) (Fin 1) (Fin 1) = Inr (Fin 2) \<and>
   divisor extended_arith (Fin (- 1)) (Fin 0) = Inr (Fin 0) \<and>
   fdiv extended_arith (Fin 2) (Fin 0) = Inr PInf \<and>
   (\<exists>k h. capital extended_arith (Fin 2) (Fin 3) (Fin (- 1)) (Fin 1) (Fin 1) (Fin 1) (Fin 1)
            (Fin 1) 2 (Fin 0) = Inr (k, h) \<and> k ! 1 = PInf) \<and>
   capital extended_arith (Fin 2) (Fin 3) (Fin (- 1)) (Fin 1) (Fin 1) (Fin 1) (Fin 1) (Fin 1) 1
     (Fin 0) = Inr ([Fin 1], [Fin 1]) \<and>
   trajectory exact_arith (- 1) 1 0 1 1 1 0 (1, 1) (nat (2 - 1)) = Inr [(1, 1), (- 1, 1)] \<and>
   capital exact_arith (- 1) 1 0 1 1 1 1 1 2 0 = Inr ([1, - 1], [1, 1])"
proof -
  have le: "(1::int) \<le> 2" "(1::int) \<le> 1"
    by simp_all
  have num: "numerator extended_arith (Fin 2) (Fin 1) (Fin 1) (Fin 1) (Fin 1) (Fin 1) (Fin 1) =
             Inr (Fin 2)"
    by (simp add: numerator_def extended_arith_def xsub_def xpow_def)
  have den: "divisor extended_arith (Fin (- 1)) (Fin 0) = Inr (Fin 0)"
    by (simp add: divisor_def extended_arith_def)
  have quot: "fdiv extended_arith (Fin 2) (Fin 0) = Inr PInf"
    by (simp add: extended_arith_def inf_of_def)
  have total: "(\<forall>x y. \<exists>z. fadd extended_arith x y = Inr z) \<and>
               (\<forall>x y. \<exists>z. fsub extended_arith x y = Inr z) \<and>
               (\<forall>x y. \<exists>z. fmul extended_arith x y = Inr z) \<and>
               (\<forall>x y. \<exists>z. fdiv extended_arith x y = Inr z) \<and>
               (\<forall>x y. \<exists>z. fpow extended_arith x y = Inr z)"
    by (simp add: extended_arith_def)
  note two = capital_failure_modes [OF le(1), of extended_arith "Fin 2" "Fin 3" "Fin (- 1)"
      "Fin 1" "Fin 1" "Fin 1" "Fin 1" "Fin 1" "Fin 0"]
  note returns = two [THEN conjunct2, THEN conjunct2, THEN conjunct2, THEN conjunct1, rule_format]
  note entry = two [THEN conjunct2, THEN conjunct2, THEN conjunct2, THEN conjunct2, rule_format]
  from returns [OF total] obtain k h where
    ret: "capital extended_arith (Fin 2) (Fin 3) (Fin (- 1)) (Fin 1) (Fin 1) (Fin 1) (Fin 1)
            (Fin 1) 2 (Fin 0) = Inr (k, h)"
    by blast
  have "k ! 1 = PInf"
    by (rule entry [of "Fin 2" "Fin 0" PInf k h]) (simp add: num den quot ret)
  with ret have a: "\<exists>k h. capital extended_arith (Fin 2) (Fin 3) (Fin (- 1)) (Fin 1) (Fin 1)
      (Fin 1) (Fin 1) (Fin 1) 2 (Fin 0) = Inr (k, h) \<and> k ! 1 = PInf"
    by blast
  note one = capital_failure_modes [OF le(2), of extended_arith "Fin 2" "Fin 3" "Fin (- 1)"
      "Fin 1" "Fin 1" "Fin 1" "Fin 1" "Fin 1" "Fin 0"]
  have b: "capital extended_arith (Fin 2) (Fin 3) (Fin (- 1)) (Fin 1) (Fin 1) (Fin 1) (Fin 1)
      (Fin 1) 1 (Fin 0) = Inr ([Fin 1], [Fin 1])"
    by (rule one [THEN conjunct2, THEN conjunct2, THEN conjunct1, rule_format]) simp
  have traj: "trajectory exact_arith (- 1) 1 0 1 1 1 0 (1, 1) (nat (2 - 1)) =
              Inr [(1, 1), (- 1, 1)]"
    by (simp add: step_def accumulation_def exact_arith_def)
  have c: "capital exact_arith (- 1) 1 0 1 1 1 1 1 2 0 = Inr ([1, - 1], [1, 1])"
    using capital_failure_modes [OF le(1), of exact_arith "- 1" 1 0 1 1 1 1 1 0, THEN conjunct1]
      traj
    by simp
  from le(1) num den quot a b traj c show ?thesis
    by (intro conjI)
qed

section \<open>No periods\<close>

text \<open>
  C8. For \<open>T = 0\<close> the call does not return arrays of length 0: the store \<open>k[0] = k0\<close>
  into the empty array raises \<open>IndexError\<close>. A call that returns has \<open>T \<ge> 1\<close>.
\<close>

theorem capital_zero_periods:
  fixes A :: "('a, 'e) arith"
  shows "capital A s_K s_H n delta alpha phi k0 h0 0 g = Inl IndexError \<and>
         (capital A s_K s_H n delta alpha phi k0 h0 T g = Inr (k, h) \<longrightarrow> 1 \<le> T)"
proof -
  have zero: "capital A s_K s_H n delta alpha phi k0 h0 0 g = Inl IndexError"
    by (simp add: capital_def np_zeros_def setitem_def norm_index_def)
  have neg: "capital A s_K s_H n delta alpha phi k0 h0 T g = Inl ValueError" if "T < 0"
    using that by (simp add: capital_def np_zeros_def)
  have "1 \<le> T" if "capital A s_K s_H n delta alpha phi k0 h0 T g = Inr (k, h)"
  proof (rule ccontr)
    assume "\<not> 1 \<le> T"
    then consider "T < 0" | "T = 0" by linarith
    then show False
      using that zero neg by cases simp_all
  qed
  with zero show ?thesis by simp
qed

text \<open>No periods raise; the run of three periods returns, and \<open>1 \<le> 3\<close>.\<close>

theorem capital_zero_periods_witness:
  "capital exact_arith 2 3 1 1 1 1 1 1 0 0 = Inl IndexError \<and>
   capital exact_arith 2 3 1 1 1 1 1 1 3 0 = Inr ([1, 1, 3 / 2], [1, 3 / 2, 9 / 4]) \<and>
   (1::int) \<le> 3"
  using capital_zero_periods
      [of exact_arith 2 3 1 1 1 1 1 1 0 3 "[1, 1, 3 / 2]" "[1, 3 / 2, 9 / 4]"]
    exact_run_three
  by simp

section \<open>Symmetric savings\<close>

text \<open>With equal savings rates and equal arrays the loop keeps the arrays equal.\<close>

lemma capital_loop_symmetric:
  assumes "capital_loop A s s n delta alpha phi g [a..b] k k = Inr (k', h')"
    and "1 \<le> a" and "b < int (length k)"
  shows "k' = h'"
  using assms
proof (induction a b arbitrary: k rule: upto.induct)
  case (1 a b)
  show ?case
  proof (cases "a \<le> b")
    case False
    then have "[a..b] = []" by simp
    with "1.prems"(1) show ?thesis by auto
  next
    case True
    then have unfold: "[a..b] = a # [a + 1..b]"
      by (simp add: upto.simps)
    have lt: "a < int (length k)"
      using True "1.prems" by simp
    from "1.prems"(1) obtain v where
      rest: "capital_loop A s s n delta alpha phi g [a + 1..b]
               (k[nat a := v]) (k[nat a := v]) = Inr (k', h')"
      unfolding unfold capital_loop_step [OF "1.prems"(2) lt refl]
      by (auto simp: bind_res_Inr_iff host_Inr_iff)
    show ?thesis
      using "1.IH" [OF True rest] "1.prems" by simp
  qed
qed

text \<open>
  C10. With \<open>s_K = s_H\<close> and \<open>k0 = h0\<close>, arrays returned by \<open>capital\<close> for \<open>T \<ge> 1\<close> have
  \<open>k[t] = h[t]\<close> for every \<open>t\<close> in \<open>0, \<dots>, T-1\<close>.
\<close>

theorem capital_symmetric:
  fixes A :: "('a, 'e) arith"
  assumes "1 \<le> T" and "s_K = s_H" and "k0 = h0"
    and "capital A s_K s_H n delta alpha phi k0 h0 T g = Inr (k, h)"
    and "0 \<le> t" and "t < T"
  shows "k ! nat t = h ! nat t"
proof -
  let ?z = "(replicate (nat T) (fnum A 0))[0 := k0]"
  have run: "capital_loop A s_K s_K n delta alpha phi g [1..T - 1] ?z ?z = Inr (k, h)"
    using assms(1-4) by (simp add: capital_unfold)
  have len: "T - 1 < int (length ?z)"
    using assms(1) by simp
  have "k = h"
    by (rule capital_loop_symmetric [OF run order_refl len])
  then show ?thesis by simp
qed

text \<open>
  The run with \<open>s_K = s_H = 2\<close>, \<open>n = g = 0\<close>, \<open>delta = alpha = phi = 1\<close> and
  \<open>k0 = h0 = 1\<close> returns \<open>[1, 2, 8]\<close> twice.
\<close>

theorem capital_symmetric_witness:
  "(1::int) \<le> 3 \<and> (0::int) \<le> 2 \<and> (2::int) < 3 \<and>
   capital exact_arith 2 2 0 1 1 1 1 1 3 0 = Inr ([1, 2, 8], [1, 2, 8]) \<and>
   [1, 2, 8 :: real] ! nat 2 = [1, 2, 8] ! nat 2"
  using capital_symmetric [OF _ refl refl exact_run_symmetric, of 2] exact_run_symmetric
  by simp

section \<open>Steady states\<close>

lemma steady_state_args:
  "bind_args [Symbol ''s_K'', Symbol ''s_H'', Symbol ''g'', Symbol ''n'', Symbol ''delta'',
              Symbol ''phi'', Symbol ''alpha'']
     [s_K, s_H, g, n, delta, phi, alpha] =
   Some [(''s_K'', s_K), (''s_H'', s_H), (''g'', g), (''n'', n), (''delta'', delta),
         (''phi'', phi), (''alpha'', alpha)]"
  by simp

lemma aevaluation_functions:
  "fst (aevaluation lambdify x module_init) =
     (lambdify [Symbol ''s_K'', Symbol ''s_H'', Symbol ''g'', Symbol ''n'', Symbol ''delta'',
                Symbol ''phi'', Symbol ''alpha'']
        (BinOp OpPow
          (BinOp OpDiv
             (BinOp OpMul (BinOp OpPow (Symbol ''s_K'') (BinOp OpSub (Integer 1) (Symbol ''phi'')))
                          (BinOp OpPow (Symbol ''s_H'') (Symbol ''phi'')))
             (BinOp OpAdd (BinOp OpAdd (BinOp OpAdd (Symbol ''n'') (Symbol ''g'')) (Symbol ''delta''))
                          (BinOp OpMul (Symbol ''n'') (Symbol ''g''))))
          (BinOp OpDiv (Integer 1)
             (BinOp OpSub (BinOp OpSub (Integer 1) (Symbol ''alpha'')) (Symbol ''phi'')))),
      lambdify [Symbol ''s_K'', Symbol ''s_H'', Symbol ''g'', Symbol ''n'', Symbol ''delta'',
                Symbol ''phi'', Symbol ''alpha'']
        (BinOp OpPow
          (BinOp OpDiv
             (BinOp OpMul (BinOp OpPow (Symbol ''s_K'') (Symbol ''alpha''))
                          (BinOp OpPow (Symbol ''s_H'') (BinOp OpSub (Integer 1) (Symbol ''alpha''))))
             (BinOp OpAdd (BinOp OpAdd (BinOp OpAdd (Symbol ''n'') (Symbol ''g'')) (Symbol ''delta''))
                          (BinOp OpMul (Symbol ''n'') (Symbol ''g''))))
          (BinOp OpDiv (Integer 1)
             (BinOp OpSub (BinOp OpSub (Integer 1) (Symbol ''alpha'')) (Symbol ''phi'')))))"
  by (simp add: aevaluation_def module_init_def Let_def)

lemma compiles_exactlyD:
  "compiles_exactly lambdify \<Longrightarrow> bind_args args vals = Some env \<Longrightarrow>
   evaluate exact_arith env e = Inr v \<Longrightarrow> lambdify args e vals = Inr v"
  unfolding compiles_exactly_def by blast

text \<open>
  C9. \<open>aevaluation\<close> ignores its argument: with any compiler, two calls in the same
  module state return the same pair of functions. In the module state after import, and
  with a compiler that is exact, the first function maps the seven numbers
  \<open>(s_K, s_H, g, n, delta, phi, alpha)\<close> to
  \<open>((s_K^(1-phi)\<cdot>s_H^phi) / (n+g+delta+n\<cdot>g))^(1/(1-alpha-phi))\<close> and the second to
  \<open>((s_K^alpha\<cdot>s_H^(1-alpha)) / (n+g+delta+n\<cdot>g))^(1/(1-alpha-phi))\<close>, wherever the
  formula has a value in exact arithmetic.
\<close>

theorem aevaluation_ignores_argument:
  fixes lambdify :: "expr list \<Rightarrow> expr \<Rightarrow> real list \<Rightarrow> host_error error + real"
  shows "aevaluation compile x M = aevaluation compile y M \<and>
         (compiles_exactly lambdify \<longrightarrow>
            (\<forall>v. kss_formula exact_arith s_K s_H g n delta phi alpha = Inr v \<longrightarrow>
                 fst (fst (aevaluation lambdify x module_init))
                   [s_K, s_H, g, n, delta, phi, alpha] = Inr v) \<and>
            (\<forall>v. hss_formula exact_arith s_K s_H g n delta phi alpha = Inr v \<longrightarrow>
                 snd (fst (aevaluation lambdify x module_init))
                   [s_K, s_H, g, n, delta, phi, alpha] = Inr v))"
proof (intro conjI impI allI)
  show "aevaluation compile x M = aevaluation compile y M"
    by (simp add: aevaluation_def)
next
  fix v
  assume exact: "compiles_exactly lambdify"
    and v: "kss_formula exact_arith s_K s_H g n delta phi alpha = Inr v"
  let ?env = "[(''s_K'', s_K), (''s_H'', s_H), (''g'', g), (''n'', n), (''delta'', delta),
               (''phi'', phi), (''alpha'', alpha)]"
  let ?kss = "BinOp OpPow
          (BinOp OpDiv
             (BinOp OpMul (BinOp OpPow (Symbol ''s_K'') (BinOp OpSub (Integer 1) (Symbol ''phi'')))
                          (BinOp OpPow (Symbol ''s_H'') (Symbol ''phi'')))
             (BinOp OpAdd (BinOp OpAdd (BinOp OpAdd (Symbol ''n'') (Symbol ''g'')) (Symbol ''delta''))
                          (BinOp OpMul (Symbol ''n'') (Symbol ''g''))))
          (BinOp OpDiv (Integer 1)
             (BinOp OpSub (BinOp OpSub (Integer 1) (Symbol ''alpha'')) (Symbol ''phi'')))"
  have "evaluate exact_arith ?env ?kss = host (kss_formula exact_arith s_K s_H g n delta phi alpha)"
    by (simp add: kss_formula_def steady_state_def apply_op_def host_bind_res bind_res_assoc)
  then have "evaluate exact_arith ?env ?kss = Inr v"
    by (simp add: v)
  from compiles_exactlyD [OF exact steady_state_args this]
  show "fst (fst (aevaluation lambdify x module_init))
                   [s_K, s_H, g, n, delta, phi, alpha] = Inr v"
    unfolding aevaluation_functions fst_conv .
next
  fix v
  assume exact: "compiles_exactly lambdify"
    and v: "hss_formula exact_arith s_K s_H g n delta phi alpha = Inr v"
  let ?env = "[(''s_K'', s_K), (''s_H'', s_H), (''g'', g), (''n'', n), (''delta'', delta),
               (''phi'', phi), (''alpha'', alpha)]"
  let ?hss = "BinOp OpPow
          (BinOp OpDiv
             (BinOp OpMul (BinOp OpPow (Symbol ''s_K'') (Symbol ''alpha''))
                          (BinOp OpPow (Symbol ''s_H'') (BinOp OpSub (Integer 1) (Symbol ''alpha''))))
             (BinOp OpAdd (BinOp OpAdd (BinOp OpAdd (Symbol ''n'') (Symbol ''g'')) (Symbol ''delta''))
                          (BinOp OpMul (Symbol ''n'') (Symbol ''g''))))
          (BinOp OpDiv (Integer 1)
             (BinOp OpSub (BinOp OpSub (Integer 1) (Symbol ''alpha'')) (Symbol ''phi'')))"
  have "evaluate exact_arith ?env ?hss = host (hss_formula exact_arith s_K s_H g n delta phi alpha)"
    by (simp add: hss_formula_def steady_state_def apply_op_def host_bind_res bind_res_assoc)
  then have "evaluate exact_arith ?env ?hss = Inr v"
    by (simp add: v)
  from compiles_exactlyD [OF exact steady_state_args this]
  show "snd (fst (aevaluation lambdify x module_init))
                   [s_K, s_H, g, n, delta, phi, alpha] = Inr v"
    unfolding aevaluation_functions snd_conv .
qed

lemma direct_lambdify_exact: "compiles_exactly direct_lambdify"
  by (simp add: compiles_exactly_def direct_lambdify_def)

lemma half_powers: "(4::real) powr (1 / 2) = 2" "(9::real) powr (1 / 2) = 3"
proof -
  have "(4::real) powr (1 / 2) = sqrt 4" by (simp add: powr_half_sqrt)
  also have "\<dots> = 2" using real_sqrt_abs [of 2] by simp
  finally show "(4::real) powr (1 / 2) = 2" .
  have "(9::real) powr (1 / 2) = sqrt 9" by (simp add: powr_half_sqrt)
  also have "\<dots> = 3" using real_sqrt_abs [of 3] by simp
  finally show "(9::real) powr (1 / 2) = 3" .
qed

text \<open>
  With the compiler that evaluates the expression as written, at \<open>s_K = 4\<close>, \<open>s_H = 9\<close>,
  \<open>g = 0\<close>, \<open>n = 1\<close>, \<open>delta = 2\<close>, \<open>phi = 1/2\<close> and \<open>alpha = 0\<close>: the steady states are
  \<open>((2\<cdot>3)/3)^2 = 4\<close> and \<open>((1\<cdot>9)/3)^2 = 9\<close>.
\<close>

theorem aevaluation_ignores_argument_witness:
  "compiles_exactly direct_lambdify \<and>
   kss_formula exact_arith 4 9 0 1 2 (1 / 2) 0 = Inr 4 \<and>
   hss_formula exact_arith 4 9 0 1 2 (1 / 2) 0 = Inr 9 \<and>
   fst (fst (aevaluation direct_lambdify () module_init)) [4, 9, 0, 1, 2, 1 / 2, 0] = Inr 4 \<and>
   snd (fst (aevaluation direct_lambdify () module_init)) [4, 9, 0, 1, 2, 1 / 2, 0] = Inr 9"
proof -
  have k: "kss_formula exact_arith 4 9 0 1 2 (1 / 2) 0 = Inr 4"
    by (simp add: kss_formula_def steady_state_def exact_arith_def half_powers)
  have h: "hss_formula exact_arith 4 9 0 1 2 (1 / 2) 0 = Inr 9"
    by (simp add: hss_formula_def steady_state_def exact_arith_def half_powers)
  note inst = aevaluation_ignores_argument [of direct_lambdify "()" module_init "()"
      direct_lambdify 4 9 0 1 2 "1 / 2" 0, THEN conjunct2, rule_format,
      OF direct_lambdify_exact]
  from inst [THEN conjunct1, rule_format, OF k] inst [THEN conjunct2, rule_format, OF h] k h
    direct_lambdify_exact
  show ?thesis by simp
qed

section \<open>Nullclines\<close>










lemma exact_fnum [simp]: "fnum exact_arith i = real_of_int i"
  by (simp add: exact_arith_def)









section \<open>The module state\<close>

text \<open>
  C7. No call of \<open>nullclines\<close>, \<open>aevaluation\<close> or \<open>capital\<close> changes the module's
  symbols \<open>k\<close>, \<open>h\<close>, \<open>alpha\<close>, \<open>delta\<close>, \<open>phi\<close>, \<open>s_K\<close>, \<open>s_H\<close>, \<open>g\<close>, \<open>n\<close> or the list
  \<open>param\<close>: the module state after a call is the module state before it, whether the
  call returns or raises.
\<close>

theorem module_state_unchanged:
  "snd (nullclines solve param M) = M \<and> snd (aevaluation lambdify x M) = M \<and>
   snd (capital_call A s_K s_H n delta alpha phi k0 h0 T g M) = M"
  by (simp add: nullclines_def aevaluation_def capital_call_def Let_def)

end
